theory Spec2Isabelle
  imports Main "HOL-Library.AList" "HOL-Library.Word"
begin

section \<open>Python values\<close>

text \<open>
  The values the client handles are the ones \<^verbatim>\<open>response.json()\<close> produces and the
  \<^verbatim>\<open>json=\<close>, \<^verbatim>\<open>params=\<close> and \<^verbatim>\<open>headers=\<close> arguments of httpx accept: None, bool, int,
  float, str, list and dict with string keys. A dict is an association list in insertion
  order (a parsed dict has distinct keys); a float is carried as its IEEE-754 bits, the
  client never computes with one.
\<close>

datatype json =
    JNull
  | JBool bool
  | JInt int
  | JFloat "64 word"
  | JStr string
  | JArr "json list"
  | JObj "(string \<times> json) list"

text \<open>Python truthiness, as \<^verbatim>\<open>if self.token:\<close> and \<^verbatim>\<open>data or {}\<close> test it.\<close>

fun truthy :: "json \<Rightarrow> bool" where
  "truthy JNull = False"
| "truthy (JBool b) = b"
| "truthy (JInt i) = (i \<noteq> 0)"
| "truthy (JFloat w) = (push_bit 1 w \<noteq> 0)"
| "truthy (JStr s) = (s \<noteq> [])"
| "truthy (JArr xs) = (xs \<noteq> [])"
| "truthy (JObj kvs) = (kvs \<noteq> [])"

section \<open>Requests, responses and errors\<close>

datatype http_method = GET | POST | PATCH | DELETE

text \<open>
  One call on the httpx client: the verb, the URL and the keyword arguments
  \<^verbatim>\<open>headers=\<close>, \<^verbatim>\<open>params=\<close> and \<^verbatim>\<open>json=\<close> (None when the call does not pass one).
\<close>

record request =
  req_method :: http_method
  req_url :: string
  req_headers :: "(string \<times> json) list"
  req_params :: "(string \<times> json) list option"
  req_json :: "json option"

text \<open>
  A response: its status code and what \<^verbatim>\<open>response.json()\<close> yields (None when the body
  is not valid JSON and the call raises).
\<close>

record response =
  status_code :: nat
  resp_json :: "json option"

datatype error =
    HTTPStatusError response
  | RequestError string
  | JSONDecodeError
  | KeyError string
  | TypeError
  | AttributeError

text \<open>
  The network and the server: what a call on the httpx client gives for a request, an
  exception of its own (connection refused, timeout, a malformed argument) or a response.
\<close>

type_synonym transport = "request \<Rightarrow> string + response"

text \<open>httpx: \<^verbatim>\<open>Response.is_success\<close> is a 2xx status; \<^verbatim>\<open>raise_for_status\<close> raises otherwise.\<close>

definition is_success :: "response \<Rightarrow> bool" where
  "is_success r = (200 \<le> status_code r \<and> status_code r \<le> 299)"

definition raise_for_status :: "response \<Rightarrow> error + response" where
  "raise_for_status r = (if is_success r then Inr r else Inl (HTTPStatusError r))"

definition response_json :: "response \<Rightarrow> error + json" where
  "response_json r = (case resp_json r of None \<Rightarrow> Inl JSONDecodeError | Some j \<Rightarrow> Inr j)"

text \<open>\<^verbatim>\<open>d[k]\<close> and \<^verbatim>\<open>d.get(k, default)\<close> on what should be a dict.\<close>

fun subscript :: "json \<Rightarrow> string \<Rightarrow> error + json" where
  "subscript (JObj kvs) k = (case map_of kvs k of None \<Rightarrow> Inl (KeyError k) | Some v \<Rightarrow> Inr v)"
| "subscript _ k = Inl TypeError"

fun dict_get :: "json \<Rightarrow> string \<Rightarrow> json \<Rightarrow> error + json" where
  "dict_get (JObj kvs) k d = Inr (case map_of kvs k of None \<Rightarrow> d | Some v \<Rightarrow> v)"
| "dict_get _ k d = Inl AttributeError"

section \<open>The client\<close>

text \<open>
  \<^verbatim>\<open>self.token\<close> is None, the string given to the constructor, or whatever \<^verbatim>\<open>login\<close>
  read from the response. \<^verbatim>\<open>self._client\<close> is modelled by the calls made on it, oldest
  first.
\<close>

record BeszelClient =
  base_url :: string
  token :: json
  client_sent :: "request list"

type_synonym 'a outcome = "(error + 'a) \<times> BeszelClient"

definition rstrip_slash :: "string \<Rightarrow> string" where
  "rstrip_slash s = rev (dropWhile (\<lambda>ch. ch = CHR ''/'') (rev s))"

definition BeszelClient_init :: "string \<Rightarrow> json \<Rightarrow> BeszelClient" where
  "BeszelClient_init url tok =
     \<lparr>base_url = rstrip_slash url, token = tok, client_sent = []\<rparr>"

text \<open>A call on \<^verbatim>\<open>self._client\<close>: the request is recorded, the transport answers.\<close>

definition httpx_call :: "transport \<Rightarrow> request \<Rightarrow> BeszelClient \<Rightarrow> response outcome" where
  "httpx_call srv req c =
     ((case srv req of Inl msg \<Rightarrow> Inl (RequestError msg) | Inr r \<Rightarrow> Inr r),
      c\<lparr>client_sent := client_sent c @ [req]\<rparr>)"

text \<open>\<^verbatim>\<open>_headers\<close>, \<^verbatim>\<open>_get\<close>, \<^verbatim>\<open>_post\<close>, \<^verbatim>\<open>_patch\<close>, \<^verbatim>\<open>_delete\<close> (a name cannot start with an underscore here).\<close>

definition u_headers :: "BeszelClient \<Rightarrow> (string \<times> json) list" where
  "u_headers c =
     (let headers = [(''Content-Type'', JStr ''application/json'')]
      in if truthy (token c) then AList.update ''Authorization'' (token c) headers
         else headers)"

definition u_get :: "transport \<Rightarrow> string \<Rightarrow> (string \<times> json) list option \<Rightarrow> BeszelClient \<Rightarrow> json outcome" where
  "u_get srv path ps c =
     (case httpx_call srv
             \<lparr>req_method = GET, req_url = base_url c @ path, req_headers = u_headers c,
              req_params = ps, req_json = None\<rparr> c of
        (Inl e, c') \<Rightarrow> (Inl e, c')
      | (Inr r, c') \<Rightarrow>
          (case raise_for_status r of
             Inl e \<Rightarrow> (Inl e, c')
           | Inr _ \<Rightarrow> (response_json r, c')))"

text \<open>\<^verbatim>\<open>data or {}\<close>: None and the empty dict both give the empty dict.\<close>

definition data_or_empty :: "(string \<times> json) list option \<Rightarrow> json" where
  "data_or_empty d =
     (case d of None \<Rightarrow> JObj [] | Some kvs \<Rightarrow> if truthy (JObj kvs) then JObj kvs else JObj [])"

definition u_post :: "transport \<Rightarrow> string \<Rightarrow> (string \<times> json) list option \<Rightarrow> BeszelClient \<Rightarrow> json outcome" where
  "u_post srv path d c =
     (case httpx_call srv
             \<lparr>req_method = POST, req_url = base_url c @ path, req_headers = u_headers c,
              req_params = None, req_json = Some (data_or_empty d)\<rparr> c of
        (Inl e, c') \<Rightarrow> (Inl e, c')
      | (Inr r, c') \<Rightarrow>
          (case raise_for_status r of
             Inl e \<Rightarrow> (Inl e, c')
           | Inr _ \<Rightarrow> (response_json r, c')))"

definition u_patch :: "transport \<Rightarrow> string \<Rightarrow> (string \<times> json) list \<Rightarrow> BeszelClient \<Rightarrow> json outcome" where
  "u_patch srv path d c =
     (case httpx_call srv
             \<lparr>req_method = PATCH, req_url = base_url c @ path, req_headers = u_headers c,
              req_params = None, req_json = Some (JObj d)\<rparr> c of
        (Inl e, c') \<Rightarrow> (Inl e, c')
      | (Inr r, c') \<Rightarrow>
          (case raise_for_status r of
             Inl e \<Rightarrow> (Inl e, c')
           | Inr _ \<Rightarrow> (response_json r, c')))"

text \<open>\<^verbatim>\<open>_delete\<close> returns None and never reads the body.\<close>

definition u_delete :: "transport \<Rightarrow> string \<Rightarrow> BeszelClient \<Rightarrow> json outcome" where
  "u_delete srv path c =
     (case httpx_call srv
             \<lparr>req_method = DELETE, req_url = base_url c @ path, req_headers = u_headers c,
              req_params = None, req_json = None\<rparr> c of
        (Inl e, c') \<Rightarrow> (Inl e, c')
      | (Inr r, c') \<Rightarrow>
          (case raise_for_status r of
             Inl e \<Rightarrow> (Inl e, c')
           | Inr _ \<Rightarrow> (Inr JNull, c')))"

subsection \<open>Authentication\<close>

definition login :: "transport \<Rightarrow> string \<Rightarrow> string \<Rightarrow> BeszelClient \<Rightarrow> json outcome" where
  "login srv email password c =
     (case httpx_call srv
             \<lparr>req_method = POST,
              req_url = base_url c @ ''/api/collections/users/auth-with-password'',
              req_headers = [(''Content-Type'', JStr ''application/json'')],
              req_params = None,
              req_json = Some (JObj [(''identity'', JStr email), (''password'', JStr password)])\<rparr> c of
        (Inl e, c') \<Rightarrow> (Inl e, c')
      | (Inr r, c') \<Rightarrow>
          (case raise_for_status r of
             Inl e \<Rightarrow> (Inl e, c')
           | Inr _ \<Rightarrow>
               (case response_json r of
                  Inl e \<Rightarrow> (Inl e, c')
                | Inr j \<Rightarrow>
                    (case subscript j ''token'' of
                       Inl e \<Rightarrow> (Inl e, c')
                     | Inr t \<Rightarrow> (Inr t, c'\<lparr>token := t\<rparr>)))))"

definition auth_refresh :: "transport \<Rightarrow> BeszelClient \<Rightarrow> json outcome" where
  "auth_refresh srv c = u_post srv ''/api/collections/users/auth-refresh'' None c"

definition get_current_user :: "transport \<Rightarrow> BeszelClient \<Rightarrow> json outcome" where
  "get_current_user srv c =
     (case auth_refresh srv c of
        (Inl e, c') \<Rightarrow> (Inl e, c')
      | (Inr result, c') \<Rightarrow> (dict_get result ''record'' (JObj []), c'))"

subsection \<open>Generic collection helpers\<close>

text \<open>
  The keyword defaults of the source (\<^verbatim>\<open>page=1\<close>, \<^verbatim>\<open>per_page=200\<close>, \<^verbatim>\<open>sort=""\<close>,
  \<^verbatim>\<open>filter_expr=""\<close>, \<^verbatim>\<open>expand=""\<close>) are written out at each call; the argument
  \<^verbatim>\<open>sort\<close> is named \<open>sort_expr\<close>, \<open>sort\<close> being a list function here.
\<close>

definition list_records ::
  "transport \<Rightarrow> string \<Rightarrow> int \<Rightarrow> int \<Rightarrow> string \<Rightarrow> string \<Rightarrow> string \<Rightarrow> BeszelClient \<Rightarrow> json outcome" where
  "list_records srv collection page per_page sort_expr filter_expr expand c =
     (let params = [(''page'', JInt page), (''perPage'', JInt per_page)];
          params = (if sort_expr \<noteq> [] then AList.update ''sort'' (JStr sort_expr) params else params);
          params = (if filter_expr \<noteq> [] then AList.update ''filter'' (JStr filter_expr) params else params);
          params = (if expand \<noteq> [] then AList.update ''expand'' (JStr expand) params else params)
      in u_get srv (''/api/collections/'' @ collection @ ''/records'') (Some params) c)"

definition get_record :: "transport \<Rightarrow> string \<Rightarrow> string \<Rightarrow> string \<Rightarrow> BeszelClient \<Rightarrow> json outcome" where
  "get_record srv collection record_id expand c =
     (let params = [];
          params = (if expand \<noteq> [] then AList.update ''expand'' (JStr expand) params else params)
      in u_get srv (''/api/collections/'' @ collection @ ''/records/'' @ record_id) (Some params) c)"

definition create_record :: "transport \<Rightarrow> string \<Rightarrow> (string \<times> json) list \<Rightarrow> BeszelClient \<Rightarrow> json outcome" where
  "create_record srv collection d c =
     u_post srv (''/api/collections/'' @ collection @ ''/records'') (Some d) c"

definition update_record ::
  "transport \<Rightarrow> string \<Rightarrow> string \<Rightarrow> (string \<times> json) list \<Rightarrow> BeszelClient \<Rightarrow> json outcome" where
  "update_record srv collection record_id d c =
     u_patch srv (''/api/collections/'' @ collection @ ''/records/'' @ record_id) d c"

definition delete_record :: "transport \<Rightarrow> string \<Rightarrow> string \<Rightarrow> BeszelClient \<Rightarrow> json outcome" where
  "delete_record srv collection record_id c =
     (case u_delete srv (''/api/collections/'' @ collection @ ''/records/'' @ record_id) c of
        (Inl e, c') \<Rightarrow> (Inl e, c')
      | (Inr _, c') \<Rightarrow> (Inr JNull, c'))"

text \<open>\<^verbatim>\<open>result.get("items", [])\<close>, the last line of every listing accessor.\<close>

definition items_of :: "json outcome \<Rightarrow> json outcome" where
  "items_of out =
     (case out of
        (Inl e, c') \<Rightarrow> (Inl e, c')
      | (Inr result, c') \<Rightarrow> (dict_get result ''items'' (JArr []), c'))"

subsection \<open>Systems, statistics, alerts, containers\<close>

definition get_systems :: "transport \<Rightarrow> string \<Rightarrow> BeszelClient \<Rightarrow> json outcome" where
  "get_systems srv filter_expr c =
     items_of (list_records srv ''systems'' 1 200 [] filter_expr [] c)"

definition get_system :: "transport \<Rightarrow> string \<Rightarrow> BeszelClient \<Rightarrow> json outcome" where
  "get_system srv system_id c = get_record srv ''systems'' system_id [] c"

definition update_system :: "transport \<Rightarrow> string \<Rightarrow> (string \<times> json) list \<Rightarrow> BeszelClient \<Rightarrow> json outcome" where
  "update_system srv system_id d c = update_record srv ''systems'' system_id d c"

definition delete_system :: "transport \<Rightarrow> string \<Rightarrow> BeszelClient \<Rightarrow> json outcome" where
  "delete_system srv system_id c =
     (case delete_record srv ''systems'' system_id c of
        (Inl e, c') \<Rightarrow> (Inl e, c')
      | (Inr _, c') \<Rightarrow> (Inr JNull, c'))"

definition get_system_stats :: "transport \<Rightarrow> string \<Rightarrow> string \<Rightarrow> int \<Rightarrow> BeszelClient \<Rightarrow> json outcome" where
  \<open>get_system_stats srv system_id record_type per_page c =
     items_of (list_records srv ''system_stats'' 1 per_page ''-created''
       (''system="'' @ system_id @ ''" && type="'' @ record_type @ ''"'') [] c)\<close>

definition get_container_stats :: "transport \<Rightarrow> string \<Rightarrow> int \<Rightarrow> BeszelClient \<Rightarrow> json outcome" where
  \<open>get_container_stats srv system_id per_page c =
     items_of (list_records srv ''container_stats'' 1 per_page ''-created''
       (''system="'' @ system_id @ ''"'') [] c)\<close>

definition get_alerts :: "transport \<Rightarrow> string \<Rightarrow> BeszelClient \<Rightarrow> json outcome" where
  \<open>get_alerts srv system_id c =
     (let filter_expr = (if system_id \<noteq> [] then ''system="'' @ system_id @ ''"'' else [])
      in items_of (list_records srv ''alerts'' 1 200 [] filter_expr ''system'' c))\<close>

definition get_alert :: "transport \<Rightarrow> string \<Rightarrow> BeszelClient \<Rightarrow> json outcome" where
  "get_alert srv alert_id c = get_record srv ''alerts'' alert_id ''system'' c"

definition create_alert :: "transport \<Rightarrow> (string \<times> json) list \<Rightarrow> BeszelClient \<Rightarrow> json outcome" where
  "create_alert srv d c = create_record srv ''alerts'' d c"

definition update_alert :: "transport \<Rightarrow> string \<Rightarrow> (string \<times> json) list \<Rightarrow> BeszelClient \<Rightarrow> json outcome" where
  "update_alert srv alert_id d c = update_record srv ''alerts'' alert_id d c"

definition delete_alert :: "transport \<Rightarrow> string \<Rightarrow> BeszelClient \<Rightarrow> json outcome" where
  "delete_alert srv alert_id c =
     (case delete_record srv ''alerts'' alert_id c of
        (Inl e, c') \<Rightarrow> (Inl e, c')
      | (Inr _, c') \<Rightarrow> (Inr JNull, c'))"

definition get_alert_history :: "transport \<Rightarrow> int \<Rightarrow> BeszelClient \<Rightarrow> json outcome" where
  "get_alert_history srv per_page c =
     items_of (list_records srv ''alerts_history'' 1 per_page ''-created'' [] [] c)"

definition get_containers :: "transport \<Rightarrow> string \<Rightarrow> BeszelClient \<Rightarrow> json outcome" where
  \<open>get_containers srv system_id c =
     (let filter_expr = (if system_id \<noteq> [] then ''system="'' @ system_id @ ''"'' else [])
      in items_of (list_records srv ''containers'' 1 200 [] filter_expr [] c))\<close>

subsection \<open>The operations as data\<close>

text \<open>
  The methods of the class that issue a request, with their arguments, so that a statement
  can range over every operation. \<^verbatim>\<open>close\<close>, \<^verbatim>\<open>__enter__\<close> and \<^verbatim>\<open>__exit__\<close> issue none.
\<close>

datatype operation =
    Op_get string "(string \<times> json) list option"
  | Op_post string "(string \<times> json) list option"
  | Op_patch string "(string \<times> json) list"
  | Op_delete string
  | Login string string
  | Auth_refresh
  | Get_current_user
  | List_records string int int string string string
  | Get_record string string string
  | Create_record string "(string \<times> json) list"
  | Update_record string string "(string \<times> json) list"
  | Delete_record string string
  | Get_systems string
  | Get_system string
  | Update_system string "(string \<times> json) list"
  | Delete_system string
  | Get_system_stats string string int
  | Get_container_stats string int
  | Get_alerts string
  | Get_alert string
  | Create_alert "(string \<times> json) list"
  | Update_alert string "(string \<times> json) list"
  | Delete_alert string
  | Get_alert_history int
  | Get_containers string

fun call :: "transport \<Rightarrow> operation \<Rightarrow> BeszelClient \<Rightarrow> json outcome" where
  "call srv (Op_get path ps) c = u_get srv path ps c"
| "call srv (Op_post path d) c = u_post srv path d c"
| "call srv (Op_patch path d) c = u_patch srv path d c"
| "call srv (Op_delete path) c = u_delete srv path c"
| "call srv (Login email password) c = login srv email password c"
| "call srv Auth_refresh c = auth_refresh srv c"
| "call srv Get_current_user c = get_current_user srv c"
| "call srv (List_records collection page per_page sort_expr filter_expr expand) c =
     list_records srv collection page per_page sort_expr filter_expr expand c"
| "call srv (Get_record collection record_id expand) c = get_record srv collection record_id expand c"
| "call srv (Create_record collection d) c = create_record srv collection d c"
| "call srv (Update_record collection record_id d) c = update_record srv collection record_id d c"
| "call srv (Delete_record collection record_id) c = delete_record srv collection record_id c"
| "call srv (Get_systems filter_expr) c = get_systems srv filter_expr c"
| "call srv (Get_system system_id) c = get_system srv system_id c"
| "call srv (Update_system system_id d) c = update_system srv system_id d c"
| "call srv (Delete_system system_id) c = delete_system srv system_id c"
| "call srv (Get_system_stats system_id record_type per_page) c =
     get_system_stats srv system_id record_type per_page c"
| "call srv (Get_container_stats system_id per_page) c = get_container_stats srv system_id per_page c"
| "call srv (Get_alerts system_id) c = get_alerts srv system_id c"
| "call srv (Get_alert alert_id) c = get_alert srv alert_id c"
| "call srv (Create_alert d) c = create_alert srv d c"
| "call srv (Update_alert alert_id d) c = update_alert srv alert_id d c"
| "call srv (Delete_alert alert_id) c = delete_alert srv alert_id c"
| "call srv (Get_alert_history per_page) c = get_alert_history srv per_page c"
| "call srv (Get_containers system_id) c = get_containers srv system_id c"

fun is_login :: "operation \<Rightarrow> bool" where
  "is_login (Login email password) = True"
| "is_login _ = False"

subsection \<open>What an operation does with the answer\<close>

text \<open>
  Every operation sends one request and treats the answer the same way: an exception of
  the transport is raised as it is, a status outside 2xx raises \<open>HTTPStatusError\<close>, and a
  2xx response is handed to a continuation that depends on the operation.
\<close>

definition answered :: "transport \<Rightarrow> request \<Rightarrow> (response \<Rightarrow> error + json) \<Rightarrow> error + json" where
  "answered srv r k =
     (case srv r of
        Inl msg \<Rightarrow> Inl (RequestError msg)
      | Inr resp \<Rightarrow> if is_success resp then k resp else Inl (HTTPStatusError resp))"

fun returns_none :: "operation \<Rightarrow> bool" where
  "returns_none (Op_delete path) = True"
| "returns_none (Delete_record collection record_id) = True"
| "returns_none (Delete_system system_id) = True"
| "returns_none (Delete_alert alert_id) = True"
| "returns_none _ = False"

fun lists_items :: "operation \<Rightarrow> bool" where
  "lists_items (Get_systems filter_expr) = True"
| "lists_items (Get_system_stats system_id record_type per_page) = True"
| "lists_items (Get_container_stats system_id per_page) = True"
| "lists_items (Get_alerts system_id) = True"
| "lists_items (Get_alert_history per_page) = True"
| "lists_items (Get_containers system_id) = True"
| "lists_items _ = False"

fun returns_body :: "operation \<Rightarrow> bool" where
  "returns_body (Op_get path ps) = True"
| "returns_body (Op_post path d) = True"
| "returns_body (Op_patch path d) = True"
| "returns_body Auth_refresh = True"
| "returns_body (List_records collection page per_page sort_expr filter_expr expand) = True"
| "returns_body (Get_record collection record_id expand) = True"
| "returns_body (Create_record collection d) = True"
| "returns_body (Update_record collection record_id d) = True"
| "returns_body (Get_system system_id) = True"
| "returns_body (Update_system system_id d) = True"
| "returns_body (Get_alert alert_id) = True"
| "returns_body (Create_alert d) = True"
| "returns_body (Update_alert alert_id d) = True"
| "returns_body _ = False"

definition on_success :: "operation \<Rightarrow> response \<Rightarrow> error + json" where
  "on_success op resp =
     (if returns_none op then Inr JNull
      else case response_json resp of
             Inl e \<Rightarrow> Inl e
           | Inr j \<Rightarrow>
               if lists_items op then dict_get j ''items'' (JArr [])
               else if is_login op then subscript j ''token''
               else if op = Get_current_user then dict_get j ''record'' (JObj [])
               else Inr j)"

section \<open>Shared lemmas\<close>

text \<open>The outcome of each transport helper: the state it leaves and the value it returns.\<close>

lemma u_get_snd:
  "snd (u_get srv path ps c) = c\<lparr>client_sent := client_sent c @
     [\<lparr>req_method = GET, req_url = base_url c @ path, req_headers = u_headers c,
       req_params = ps, req_json = None\<rparr>]\<rparr>"
  unfolding u_get_def httpx_call_def by (simp split: sum.split)

lemma u_get_fst:
  "fst (u_get srv path ps c) =
     answered srv \<lparr>req_method = GET, req_url = base_url c @ path, req_headers = u_headers c,
       req_params = ps, req_json = None\<rparr> response_json"
  unfolding u_get_def httpx_call_def raise_for_status_def answered_def by (simp split: sum.split)

lemma u_post_snd:
  "snd (u_post srv path d c) = c\<lparr>client_sent := client_sent c @
     [\<lparr>req_method = POST, req_url = base_url c @ path, req_headers = u_headers c,
       req_params = None, req_json = Some (data_or_empty d)\<rparr>]\<rparr>"
  unfolding u_post_def httpx_call_def by (simp split: sum.split)

lemma u_post_fst:
  "fst (u_post srv path d c) =
     answered srv \<lparr>req_method = POST, req_url = base_url c @ path, req_headers = u_headers c,
       req_params = None, req_json = Some (data_or_empty d)\<rparr> response_json"
  unfolding u_post_def httpx_call_def raise_for_status_def answered_def by (simp split: sum.split)

lemma u_patch_snd:
  "snd (u_patch srv path d c) = c\<lparr>client_sent := client_sent c @
     [\<lparr>req_method = PATCH, req_url = base_url c @ path, req_headers = u_headers c,
       req_params = None, req_json = Some (JObj d)\<rparr>]\<rparr>"
  unfolding u_patch_def httpx_call_def by (simp split: sum.split)

lemma u_patch_fst:
  "fst (u_patch srv path d c) =
     answered srv \<lparr>req_method = PATCH, req_url = base_url c @ path, req_headers = u_headers c,
       req_params = None, req_json = Some (JObj d)\<rparr> response_json"
  unfolding u_patch_def httpx_call_def raise_for_status_def answered_def by (simp split: sum.split)

lemma u_delete_snd:
  "snd (u_delete srv path c) = c\<lparr>client_sent := client_sent c @
     [\<lparr>req_method = DELETE, req_url = base_url c @ path, req_headers = u_headers c,
       req_params = None, req_json = None\<rparr>]\<rparr>"
  unfolding u_delete_def httpx_call_def by (simp split: sum.split)

lemma u_delete_fst:
  "fst (u_delete srv path c) =
     answered srv \<lparr>req_method = DELETE, req_url = base_url c @ path, req_headers = u_headers c,
       req_params = None, req_json = None\<rparr> (\<lambda>_. Inr JNull)"
  unfolding u_delete_def httpx_call_def raise_for_status_def answered_def by (simp split: sum.split)

lemma login_snd:
  "client_sent (snd (login srv email password c)) = client_sent c @
     [\<lparr>req_method = POST, req_url = base_url c @ ''/api/collections/users/auth-with-password'',
       req_headers = [(''Content-Type'', JStr ''application/json'')], req_params = None,
       req_json = Some (JObj [(''identity'', JStr email), (''password'', JStr password)])\<rparr>]"
  unfolding login_def httpx_call_def by (simp split: sum.split)

lemma login_fst:
  "fst (login srv email password c) =
     answered srv
       \<lparr>req_method = POST, req_url = base_url c @ ''/api/collections/users/auth-with-password'',
        req_headers = [(''Content-Type'', JStr ''application/json'')], req_params = None,
        req_json = Some (JObj [(''identity'', JStr email), (''password'', JStr password)])\<rparr>
       (\<lambda>r. case response_json r of Inl e \<Rightarrow> Inl e | Inr j \<Rightarrow> subscript j ''token'')"
  unfolding login_def httpx_call_def raise_for_status_def answered_def by (simp split: sum.split)

lemma login_token:
  "token (snd (login srv email password c)) =
     (case fst (login srv email password c) of Inl e \<Rightarrow> token c | Inr t \<Rightarrow> t)"
  unfolding login_def httpx_call_def by (simp split: sum.split)

lemma items_of_snd: "snd (items_of out) = snd out"
  unfolding items_of_def by (simp split: prod.split sum.split)

lemma items_of_fst:
  "fst (items_of out) =
     (case fst out of Inl e \<Rightarrow> Inl e | Inr result \<Rightarrow> dict_get result ''items'' (JArr []))"
  unfolding items_of_def by (simp split: prod.split sum.split)

lemma then_none_snd:
  "snd (case out of (Inl e, c') \<Rightarrow> (Inl e, c') | (Inr x, c') \<Rightarrow> (Inr JNull, c')) = snd out"
  by (simp split: prod.split sum.split)

lemma then_none_fst:
  "fst (case out of (Inl e, c') \<Rightarrow> (Inl e, c') | (Inr x, c') \<Rightarrow> (Inr JNull, c')) =
     (case fst out of Inl e \<Rightarrow> Inl e | Inr x \<Rightarrow> Inr JNull)"
  by (simp split: prod.split sum.split)

lemma get_current_user_snd: "snd (get_current_user srv c) = snd (auth_refresh srv c)"
  unfolding get_current_user_def by (simp split: prod.split sum.split)

lemma get_current_user_fst:
  "fst (get_current_user srv c) =
     (case fst (auth_refresh srv c) of
        Inl e \<Rightarrow> Inl e
      | Inr result \<Rightarrow> dict_get result ''record'' (JObj []))"
  unfolding get_current_user_def by (simp split: prod.split sum.split)

lemma answered_then_items:
  "(case answered srv r response_json of Inl e \<Rightarrow> Inl e | Inr result \<Rightarrow> dict_get result k d) =
     answered srv r (\<lambda>resp. case response_json resp of Inl e \<Rightarrow> Inl e | Inr j \<Rightarrow> dict_get j k d)"
  unfolding answered_def by (simp split: sum.split)

lemma answered_then_none:
  "(case answered srv r (\<lambda>_. Inr JNull) of Inl e \<Rightarrow> Inl e | Inr x \<Rightarrow> Inr JNull) =
     answered srv r (\<lambda>_. Inr JNull)"
  unfolding answered_def by (simp split: sum.split)

lemma answered_body:
  "answered srv r response_json =
     answered srv r (\<lambda>resp. case response_json resp of Inl e \<Rightarrow> Inl e | Inr j \<Rightarrow> Inr j)"
  unfolding answered_def by (simp split: sum.split)

lemmas snd_simps = u_get_snd u_post_snd u_patch_snd u_delete_snd items_of_snd then_none_snd
  get_current_user_snd
lemmas fst_simps = u_get_fst u_post_fst u_patch_fst u_delete_fst items_of_fst then_none_fst
  get_current_user_fst answered_then_items answered_then_none
lemmas accessor_defs = auth_refresh_def list_records_def get_record_def
  create_record_def update_record_def delete_record_def get_systems_def get_system_def
  update_system_def delete_system_def get_system_stats_def get_container_stats_def get_alerts_def
  get_alert_def create_alert_def update_alert_def delete_alert_def get_alert_history_def get_containers_def

lemma on_success_simps:
  "returns_none op \<Longrightarrow> on_success op = (\<lambda>_. Inr JNull)"
  "lists_items op \<Longrightarrow> on_success op =
     (\<lambda>resp. case response_json resp of Inl e \<Rightarrow> Inl e | Inr j \<Rightarrow> dict_get j ''items'' (JArr []))"
  "is_login op \<Longrightarrow> on_success op =
     (\<lambda>resp. case response_json resp of Inl e \<Rightarrow> Inl e | Inr j \<Rightarrow> subscript j ''token'')"
  "on_success Get_current_user =
     (\<lambda>resp. case response_json resp of Inl e \<Rightarrow> Inl e | Inr j \<Rightarrow> dict_get j ''record'' (JObj []))"
  "returns_body op \<Longrightarrow> on_success op = response_json"
  by (cases op; fastforce simp: on_success_def split: sum.split)+

lemma call_shape:
  "\<exists>R. client_sent (snd (call srv op c)) = client_sent c @ [R] \<and>
       (\<not> is_login op \<longrightarrow> req_headers R = u_headers c) \<and>
       fst (call srv op c) = answered srv R (on_success op)"
  by (cases op)
     (simp_all add: accessor_defs snd_simps fst_simps login_snd login_fst Let_def
        on_success_simps)


section \<open>Authentication\<close>

text \<open>
  Claim C1. Every call of \<open>login\<close> sends one request: a POST to
  \<^verbatim>\<open>/api/collections/users/auth-with-password\<close> under the base URL, with the JSON body
  \<^verbatim>\<open>{"identity": email, "password": password}\<close> and no Authorization header, whatever the
  client's token is. When the transport answers it with a 2xx response whose body is a
  mapping with a \<^verbatim>\<open>token\<close> key, that value becomes the client's token and is returned.
\<close>

theorem login_request_and_token:
  "\<exists>R. client_sent (snd (login srv email password c)) = client_sent c @ [R] \<and>
       req_method R = POST \<and>
       req_url R = base_url c @ ''/api/collections/users/auth-with-password'' \<and>
       req_json R = Some (JObj [(''identity'', JStr email), (''password'', JStr password)]) \<and>
       req_headers R = [(''Content-Type'', JStr ''application/json'')] \<and>
       map_of (req_headers R) ''Authorization'' = None \<and>
       (srv R = Inr r \<and> is_success r \<and> resp_json r = Some (JObj kvs) \<and>
        map_of kvs ''token'' = Some t \<longrightarrow>
          fst (login srv email password c) = Inr t \<and>
          token (snd (login srv email password c)) = t)"
  by (simp add: login_snd login_fst login_token answered_def response_json_def)

theorem login_request_and_token_witness:
  "fst (login (\<lambda>R. Inr \<lparr>status_code = 200, resp_json = Some (JObj [(''token'', JStr ''abc'')])\<rparr>)
         ''a@b.c'' ''pw''
         \<lparr>base_url = ''https://hub.example.com'', token = JStr ''old'', client_sent = []\<rparr>)
     = Inr (JStr ''abc'') \<and>
   token (snd (login (\<lambda>R. Inr \<lparr>status_code = 200, resp_json = Some (JObj [(''token'', JStr ''abc'')])\<rparr>)
         ''a@b.c'' ''pw''
         \<lparr>base_url = ''https://hub.example.com'', token = JStr ''old'', client_sent = []\<rparr>))
     = JStr ''abc''"
  using login_request_and_token
    [of "\<lambda>R. Inr \<lparr>status_code = 200, resp_json = Some (JObj [(''token'', JStr ''abc'')])\<rparr>"
        "''a@b.c''" "''pw''"
        "\<lparr>base_url = ''https://hub.example.com'', token = JStr ''old'', client_sent = []\<rparr>"
        "\<lparr>status_code = 200, resp_json = Some (JObj [(''token'', JStr ''abc'')])\<rparr>"
        "[(''token'', JStr ''abc'')]" "JStr ''abc''"]
  by (auto simp: is_success_def)

text \<open>
  Claim C5. When the transport answers the request of \<open>login\<close> with a response outside
  2xx, \<open>login\<close> raises \<open>HTTPStatusError\<close> carrying that response (so its status code),
  and the client's token is what it was before the call.
\<close>

theorem login_failure_keeps_token:
  "\<exists>R. client_sent (snd (login srv email password c)) = client_sent c @ [R] \<and>
       (srv R = Inr r \<and> \<not> is_success r \<longrightarrow>
          fst (login srv email password c) = Inl (HTTPStatusError r) \<and>
          token (snd (login srv email password c)) = token c)"
  by (simp add: login_snd login_fst login_token answered_def)

theorem login_failure_keeps_token_witness:
  "fst (login (\<lambda>R. Inr \<lparr>status_code = 401, resp_json = Some (JObj [(''message'', JStr ''no'')])\<rparr>)
         ''a@b.c'' ''pw''
         \<lparr>base_url = ''https://hub.example.com'', token = JStr ''old'', client_sent = []\<rparr>)
     = Inl (HTTPStatusError \<lparr>status_code = 401, resp_json = Some (JObj [(''message'', JStr ''no'')])\<rparr>) \<and>
   token (snd (login (\<lambda>R. Inr \<lparr>status_code = 401, resp_json = Some (JObj [(''message'', JStr ''no'')])\<rparr>)
         ''a@b.c'' ''pw''
         \<lparr>base_url = ''https://hub.example.com'', token = JStr ''old'', client_sent = []\<rparr>))
     = JStr ''old''"
  using login_failure_keeps_token
    [of "\<lambda>R. Inr \<lparr>status_code = 401, resp_json = Some (JObj [(''message'', JStr ''no'')])\<rparr>"
        "''a@b.c''" "''pw''"
        "\<lparr>base_url = ''https://hub.example.com'', token = JStr ''old'', client_sent = []\<rparr>"
        "\<lparr>status_code = 401, resp_json = Some (JObj [(''message'', JStr ''no'')])\<rparr>"]
  by (auto simp: is_success_def)

text \<open>
  Claim C7. \<open>get_current_user\<close> posts to the refresh endpoint; on a 2xx response whose
  body is a mapping it returns the value under \<^verbatim>\<open>record\<close> as it is, or the empty mapping
  when the key is absent. The client's token is left alone.
\<close>

theorem current_user_is_record:
  "\<exists>R. client_sent (snd (get_current_user srv c)) = client_sent c @ [R] \<and>
       req_method R = POST \<and>
       req_url R = base_url c @ ''/api/collections/users/auth-refresh'' \<and>
       (srv R = Inr r \<and> is_success r \<and> resp_json r = Some (JObj kvs) \<longrightarrow>
          fst (get_current_user srv c) =
            Inr (case map_of kvs ''record'' of Some v \<Rightarrow> v | None \<Rightarrow> JObj []) \<and>
          token (snd (get_current_user srv c)) = token c)"
  by (simp add: get_current_user_snd get_current_user_fst auth_refresh_def u_post_snd u_post_fst
        answered_def response_json_def)

theorem current_user_is_record_witness:
  "fst (get_current_user
         (\<lambda>R. Inr \<lparr>status_code = 200,
                    resp_json = Some (JObj [(''token'', JStr ''t2''),
                                            (''record'', JObj [(''email'', JStr ''a@b.c'')])])\<rparr>)
         \<lparr>base_url = ''https://hub.example.com'', token = JStr ''t1'', client_sent = []\<rparr>)
     = Inr (JObj [(''email'', JStr ''a@b.c'')]) \<and>
   fst (get_current_user
         (\<lambda>R. Inr \<lparr>status_code = 200, resp_json = Some (JObj [(''token'', JStr ''t2'')])\<rparr>)
         \<lparr>base_url = ''https://hub.example.com'', token = JStr ''t1'', client_sent = []\<rparr>)
     = Inr (JObj [])"
  using current_user_is_record
    [of "\<lambda>R. Inr \<lparr>status_code = 200,
                    resp_json = Some (JObj [(''token'', JStr ''t2''),
                                            (''record'', JObj [(''email'', JStr ''a@b.c'')])])\<rparr>"
        "\<lparr>base_url = ''https://hub.example.com'', token = JStr ''t1'', client_sent = []\<rparr>"
        "\<lparr>status_code = 200,
          resp_json = Some (JObj [(''token'', JStr ''t2''),
                                  (''record'', JObj [(''email'', JStr ''a@b.c'')])])\<rparr>"
        "[(''token'', JStr ''t2''), (''record'', JObj [(''email'', JStr ''a@b.c'')])]"]
    current_user_is_record
    [of "\<lambda>R. Inr \<lparr>status_code = 200, resp_json = Some (JObj [(''token'', JStr ''t2'')])\<rparr>"
        "\<lparr>base_url = ''https://hub.example.com'', token = JStr ''t1'', client_sent = []\<rparr>"
        "\<lparr>status_code = 200, resp_json = Some (JObj [(''token'', JStr ''t2'')])\<rparr>"
        "[(''token'', JStr ''t2'')]"]
  by (auto simp: is_success_def)

section \<open>The generic list operation\<close>

lemma list_records_snd:
  "client_sent (snd (list_records srv collection page per_page sort_expr filter_expr expand c)) =
     client_sent c @
       [\<lparr>req_method = GET,
         req_url = base_url c @ ''/api/collections/'' @ collection @ ''/records'',
         req_headers = u_headers c,
         req_params = Some ([(''page'', JInt page), (''perPage'', JInt per_page)]
            @ (if sort_expr \<noteq> [] then [(''sort'', JStr sort_expr)] else [])
            @ (if filter_expr \<noteq> [] then [(''filter'', JStr filter_expr)] else [])
            @ (if expand \<noteq> [] then [(''expand'', JStr expand)] else [])),
         req_json = None\<rparr>]"
  by (simp add: list_records_def Let_def u_get_snd)

lemma list_records_fst:
  "\<exists>R. client_sent (snd (list_records srv collection page per_page sort_expr filter_expr expand c))
          = client_sent c @ [R] \<and>
       fst (list_records srv collection page per_page sort_expr filter_expr expand c)
          = answered srv R response_json"
  by (simp add: list_records_def Let_def u_get_snd u_get_fst)

lemma items_list_records_snd:
  "client_sent (snd (items_of (list_records srv collection page per_page sort_expr filter_expr expand c))) =
     client_sent c @
       [\<lparr>req_method = GET,
         req_url = base_url c @ ''/api/collections/'' @ collection @ ''/records'',
         req_headers = u_headers c,
         req_params = Some ([(''page'', JInt page), (''perPage'', JInt per_page)]
            @ (if sort_expr \<noteq> [] then [(''sort'', JStr sort_expr)] else [])
            @ (if filter_expr \<noteq> [] then [(''filter'', JStr filter_expr)] else [])
            @ (if expand \<noteq> [] then [(''expand'', JStr expand)] else [])),
         req_json = None\<rparr>]"
  by (simp add: items_of_snd list_records_snd)

text \<open>
  Claim C2. \<open>list_records\<close> sends one GET to \<^verbatim>\<open>/api/collections/{collection}/records\<close> under
  the base URL. Its query parameters always hold \<^verbatim>\<open>page\<close> and \<^verbatim>\<open>perPage\<close> with the given
  values; \<^verbatim>\<open>sort\<close>, \<^verbatim>\<open>filter\<close> and \<^verbatim>\<open>expand\<close> are keys of the parameters exactly when the
  argument is not the empty string, with the argument as value, so an empty string is never
  sent for them; there is no other key.
\<close>

theorem list_records_query:
  "\<exists>R ps. client_sent (snd (list_records srv collection page per_page sort_expr filter_expr expand c))
            = client_sent c @ [R] \<and>
     req_method R = GET \<and>
     req_url R = base_url c @ ''/api/collections/'' @ collection @ ''/records'' \<and>
     req_params R = Some ps \<and>
     map_of ps ''page'' = Some (JInt page) \<and>
     map_of ps ''perPage'' = Some (JInt per_page) \<and>
     (''sort'' \<in> fst ` set ps) = (sort_expr \<noteq> []) \<and>
     (''filter'' \<in> fst ` set ps) = (filter_expr \<noteq> []) \<and>
     (''expand'' \<in> fst ` set ps) = (expand \<noteq> []) \<and>
     map_of ps ''sort'' = (if sort_expr = [] then None else Some (JStr sort_expr)) \<and>
     map_of ps ''filter'' = (if filter_expr = [] then None else Some (JStr filter_expr)) \<and>
     map_of ps ''expand'' = (if expand = [] then None else Some (JStr expand)) \<and>
     fst ` set ps \<subseteq> {''page'', ''perPage'', ''sort'', ''filter'', ''expand''}"
  by (simp add: list_records_snd)

theorem list_records_query_witness:
  \<open>\<exists>R ps. client_sent (snd (list_records (\<lambda>R. Inl ''down'') ''systems'' 1 200 [] ''status="up"'' []
               \<lparr>base_url = ''https://hub.example.com'', token = JNull, client_sent = []\<rparr>)) = [R] \<and>
     req_url R = ''https://hub.example.com/api/collections/systems/records'' \<and>
     req_params R = Some ps \<and>
     map_of ps ''page'' = Some (JInt 1) \<and> map_of ps ''perPage'' = Some (JInt 200) \<and>
     map_of ps ''sort'' = None \<and> map_of ps ''filter'' = Some (JStr ''status="up"'') \<and>
     map_of ps ''expand'' = None\<close>
  using list_records_query
    [of \<open>\<lambda>R. Inl ''down''\<close> \<open>''systems''\<close> 1 200 \<open>[]\<close> \<open>''status="up"''\<close> \<open>[]\<close>
        \<open>\<lparr>base_url = ''https://hub.example.com'', token = JNull, client_sent = []\<rparr>\<close>]
  by auto

text \<open>
  Claim C3, as stated, fails: \<open>list_records\<close> returns the parsed body as it is, so for a 2xx
  response whose body has no \<^verbatim>\<open>items\<close> key the result has no \<^verbatim>\<open>items\<close> key either.
\<close>

theorem list_records_items_default_counterexample:
  "fst (list_records
         (\<lambda>R. Inr \<lparr>status_code = 200, resp_json = Some (JObj [(''totalItems'', JInt 0)])\<rparr>)
         ''systems'' 1 200 [] [] []
         \<lparr>base_url = ''https://hub.example.com'', token = JNull, client_sent = []\<rparr>)
     = Inr (JObj [(''totalItems'', JInt 0)]) \<and>
   \<not> (\<exists>kvs. fst (list_records
         (\<lambda>R. Inr \<lparr>status_code = 200, resp_json = Some (JObj [(''totalItems'', JInt 0)])\<rparr>)
         ''systems'' 1 200 [] [] []
         \<lparr>base_url = ''https://hub.example.com'', token = JNull, client_sent = []\<rparr>)
       = Inr (JObj kvs) \<and> map_of kvs ''items'' = Some (JArr []))"
  by (simp add: list_records_def Let_def u_get_fst answered_def is_success_def response_json_def)

text \<open>
  Claim C3, amended. \<open>list_records\<close> returns the parsed body of a 2xx response unchanged.
  The default is applied one level up: each listing accessor (\<open>get_systems\<close>,
  \<open>get_system_stats\<close>, \<open>get_container_stats\<close>, \<open>get_alerts\<close>, \<open>get_alert_history\<close>,
  \<open>get_containers\<close>) returns the value under \<^verbatim>\<open>items\<close> of a body that is a mapping, and the
  empty sequence when the key is absent, not an error.
\<close>

theorem items_default_by_accessors:
  "(\<exists>R. client_sent (snd (list_records srv collection page per_page sort_expr filter_expr expand c))
          = client_sent c @ [R] \<and>
        (srv R = Inr r \<and> is_success r \<and> resp_json r = Some j \<longrightarrow>
           fst (list_records srv collection page per_page sort_expr filter_expr expand c) = Inr j)) \<and>
   (lists_items op \<longrightarrow>
      (\<exists>R. client_sent (snd (call srv op c)) = client_sent c @ [R] \<and>
          (srv R = Inr r \<and> is_success r \<and> resp_json r = Some (JObj kvs) \<longrightarrow>
             fst (call srv op c) =
               Inr (case map_of kvs ''items'' of None \<Rightarrow> JArr [] | Some v \<Rightarrow> v))))"
proof (intro conjI impI)
  obtain R where R: "client_sent (snd (list_records srv collection page per_page sort_expr filter_expr expand c))
          = client_sent c @ [R]"
     "fst (list_records srv collection page per_page sort_expr filter_expr expand c)
          = answered srv R response_json"
    using list_records_fst by blast
  show "\<exists>R. client_sent (snd (list_records srv collection page per_page sort_expr filter_expr expand c))
          = client_sent c @ [R] \<and>
        (srv R = Inr r \<and> is_success r \<and> resp_json r = Some j \<longrightarrow>
           fst (list_records srv collection page per_page sort_expr filter_expr expand c) = Inr j)"
    using R by (intro exI[of _ R]) (simp add: answered_def response_json_def)
next
  assume items: "lists_items op"
  obtain R where R: "client_sent (snd (call srv op c)) = client_sent c @ [R]"
      "fst (call srv op c) = answered srv R (on_success op)"
    using call_shape by blast
  show "\<exists>R. client_sent (snd (call srv op c)) = client_sent c @ [R] \<and>
          (srv R = Inr r \<and> is_success r \<and> resp_json r = Some (JObj kvs) \<longrightarrow>
             fst (call srv op c) =
               Inr (case map_of kvs ''items'' of None \<Rightarrow> JArr [] | Some v \<Rightarrow> v))"
    using R by (intro exI[of _ R]) (simp add: answered_def response_json_def on_success_simps(2)[OF items])
qed

theorem items_default_by_accessors_witness:
  "fst (list_records
         (\<lambda>R. Inr \<lparr>status_code = 200, resp_json = Some (JObj [(''totalItems'', JInt 0)])\<rparr>)
         ''systems'' 1 200 [] [] []
         \<lparr>base_url = ''https://hub.example.com'', token = JNull, client_sent = []\<rparr>)
     = Inr (JObj [(''totalItems'', JInt 0)]) \<and>
   fst (call
         (\<lambda>R. Inr \<lparr>status_code = 200, resp_json = Some (JObj [(''totalItems'', JInt 0)])\<rparr>)
         (Get_systems [])
         \<lparr>base_url = ''https://hub.example.com'', token = JNull, client_sent = []\<rparr>)
     = Inr (JArr [])"
  using items_default_by_accessors
    [of "\<lambda>R. Inr \<lparr>status_code = 200, resp_json = Some (JObj [(''totalItems'', JInt 0)])\<rparr>"
        "''systems''" 1 200 "[]" "[]" "[]"
        "\<lparr>base_url = ''https://hub.example.com'', token = JNull, client_sent = []\<rparr>"
        "\<lparr>status_code = 200, resp_json = Some (JObj [(''totalItems'', JInt 0)])\<rparr>"
        "JObj [(''totalItems'', JInt 0)]" "Get_systems []" "[(''totalItems'', JInt 0)]"]
  by (auto simp: is_success_def)

section \<open>Headers\<close>

lemma u_headers_lookup:
  "map_of (u_headers c) ''Content-Type'' = Some (JStr ''application/json'')"
  "map_of (u_headers c) ''Authorization'' = (if truthy (token c) then Some (token c) else None)"
  "fst ` set (u_headers c) \<subseteq> {''Content-Type'', ''Authorization''}"
  by (auto simp: u_headers_def Let_def)

lemma u_headers_empty_token:
  "u_headers (c\<lparr>token := JStr []\<rparr>) = [(''Content-Type'', JStr ''application/json'')]"
  "u_headers (c\<lparr>token := JNull\<rparr>) = [(''Content-Type'', JStr ''application/json'')]"
  by (simp_all add: u_headers_def)

text \<open>
  Claim C4. Every operation other than \<open>login\<close> sends one request whose headers hold
  \<^verbatim>\<open>Content-Type: application/json\<close>, and an \<^verbatim>\<open>Authorization\<close> header exactly when the
  client's token is present, that is truthy as \<^verbatim>\<open>if self.token:\<close> tests it (not None and
  not the empty string); its value is then the token itself, with no prefix. There is no
  other header.
\<close>

theorem requests_carry_headers:
  "\<not> is_login op \<Longrightarrow>
   \<exists>R. client_sent (snd (call srv op c)) = client_sent c @ [R] \<and>
       map_of (req_headers R) ''Content-Type'' = Some (JStr ''application/json'') \<and>
       map_of (req_headers R) ''Authorization'' = (if truthy (token c) then Some (token c) else None) \<and>
       (token c = JNull \<longrightarrow> map_of (req_headers R) ''Authorization'' = None) \<and>
       (token c = JStr t \<longrightarrow>
          map_of (req_headers R) ''Authorization'' = (if t = [] then None else Some (JStr t))) \<and>
       fst ` set (req_headers R) \<subseteq> {''Content-Type'', ''Authorization''}"
proof -
  assume "\<not> is_login op"
  then obtain R where R: "client_sent (snd (call srv op c)) = client_sent c @ [R]"
      "req_headers R = u_headers c"
    using call_shape by blast
  show ?thesis
    using R u_headers_lookup(3)[of c] by (intro exI[of _ R]) (simp add: u_headers_lookup(1,2))
qed

theorem requests_carry_headers_witness:
  "\<exists>R. client_sent (snd (call (\<lambda>R. Inl ''down'') (Get_systems [])
            \<lparr>base_url = ''https://hub.example.com'', token = JStr ''tok'', client_sent = []\<rparr>)) = [R] \<and>
       map_of (req_headers R) ''Content-Type'' = Some (JStr ''application/json'') \<and>
       map_of (req_headers R) ''Authorization'' = Some (JStr ''tok'')"
  using requests_carry_headers
    [of "Get_systems []" "\<lambda>R. Inl ''down''"
        "\<lparr>base_url = ''https://hub.example.com'', token = JStr ''tok'', client_sent = []\<rparr>" "''tok''"]
  by auto

text \<open>
  Claim C9. A client whose token is the empty string behaves as one whose token is None:
  every operation returns the same value and sends the same request, and that request has
  no \<^verbatim>\<open>Authorization\<close> header.
\<close>

theorem empty_token_is_no_token:
  "fst (call srv op (c\<lparr>token := JStr []\<rparr>)) = fst (call srv op (c\<lparr>token := JNull\<rparr>)) \<and>
   client_sent (snd (call srv op (c\<lparr>token := JStr []\<rparr>))) =
     client_sent (snd (call srv op (c\<lparr>token := JNull\<rparr>))) \<and>
   (\<exists>R. client_sent (snd (call srv op (c\<lparr>token := JStr []\<rparr>))) = client_sent c @ [R] \<and>
        map_of (req_headers R) ''Authorization'' = None)"
  by (cases op)
     (simp_all add: accessor_defs snd_simps fst_simps login_snd login_fst Let_def
        u_headers_empty_token)

theorem empty_token_is_no_token_witness:
  "\<exists>R. client_sent (snd (call (\<lambda>R. Inl ''down'') (Get_systems [])
            \<lparr>base_url = ''https://hub.example.com'', token = JStr [], client_sent = []\<rparr>)) = [R] \<and>
        map_of (req_headers R) ''Authorization'' = None"
proof -
  from empty_token_is_no_token
    [of "\<lambda>R. Inl ''down''" "Get_systems []"
        "\<lparr>base_url = ''https://hub.example.com'', token = JNull, client_sent = []\<rparr>"]
  obtain R where
    "client_sent (snd (call (\<lambda>R. Inl ''down'') (Get_systems [])
        (\<lparr>base_url = ''https://hub.example.com'', token = JNull, client_sent = []\<rparr>
           \<lparr>token := JStr []\<rparr>))) =
     client_sent \<lparr>base_url = ''https://hub.example.com'', token = JNull, client_sent = []\<rparr> @ [R]"
    "map_of (req_headers R) ''Authorization'' = None"
    by blast
  then show ?thesis
    by (intro exI[of _ R]) simp
qed

section \<open>Filters of the domain accessors\<close>

text \<open>
  Claim C6. \<open>get_system_stats\<close> sends the filter \<^verbatim>\<open>system="<system_id>" && type="<record_type>"\<close>;
  \<open>get_containers\<close> and \<open>get_alerts\<close> send no \<^verbatim>\<open>filter\<close> parameter for an empty system id
  and the filter \<^verbatim>\<open>system="<system_id>"\<close> otherwise.
\<close>

theorem accessor_filters:
  \<open>(\<exists>R ps. client_sent (snd (get_system_stats srv system_id record_type per_page c))
              = client_sent c @ [R] \<and>
       req_params R = Some ps \<and>
       map_of ps ''filter'' =
         Some (JStr (''system="'' @ system_id @ ''" && type="'' @ record_type @ ''"''))) \<and>
    (\<exists>R ps. client_sent (snd (get_containers srv system_id c)) = client_sent c @ [R] \<and>
       req_params R = Some ps \<and>
       map_of ps ''filter'' =
         (if system_id = [] then None else Some (JStr (''system="'' @ system_id @ ''"'')))) \<and>
    (\<exists>R ps. client_sent (snd (get_alerts srv system_id c)) = client_sent c @ [R] \<and>
       req_params R = Some ps \<and>
       map_of ps ''filter'' =
         (if system_id = [] then None else Some (JStr (''system="'' @ system_id @ ''"''))))\<close>
  by (simp add: get_system_stats_def get_containers_def get_alerts_def Let_def
        items_list_records_snd)

theorem accessor_filters_witness:
  \<open>(\<exists>R ps. client_sent (snd (get_system_stats (\<lambda>R. Inl ''down'') ''sys1'' ''10m'' 30
               \<lparr>base_url = ''https://hub.example.com'', token = JNull, client_sent = []\<rparr>)) = [R] \<and>
       req_params R = Some ps \<and>
       map_of ps ''filter'' = Some (JStr ''system="sys1" && type="10m"'')) \<and>
    (\<exists>R ps. client_sent (snd (get_containers (\<lambda>R. Inl ''down'') ''sys1''
               \<lparr>base_url = ''https://hub.example.com'', token = JNull, client_sent = []\<rparr>)) = [R] \<and>
       req_params R = Some ps \<and>
       map_of ps ''filter'' = Some (JStr ''system="sys1"''))\<close>
  using accessor_filters
    [of \<open>\<lambda>R. Inl ''down''\<close> \<open>''sys1''\<close> \<open>''10m''\<close> 30
        \<open>\<lparr>base_url = ''https://hub.example.com'', token = JNull, client_sent = []\<rparr>\<close>]
  by auto

text \<open>
  Claim C10. The filter is the concatenation of the fixed text and the caller's ids as they
  are: nothing is escaped, added or dropped, whatever characters the ids hold. An id with
  a double quote closes the quoted value early, as the instance below shows.
\<close>

theorem filters_interpolate_verbatim:
  \<open>(\<exists>R ps f. client_sent (snd (get_system_stats srv system_id record_type per_page c))
              = client_sent c @ [R] \<and>
       req_params R = Some ps \<and> map_of ps ''filter'' = Some (JStr f) \<and>
       f = ''system="'' @ system_id @ ''" && type="'' @ record_type @ ''"'' \<and>
       length f = length system_id + length record_type + 20) \<and>
    (\<exists>R ps f. client_sent (snd (get_container_stats srv system_id per_page c))
              = client_sent c @ [R] \<and>
       req_params R = Some ps \<and> map_of ps ''filter'' = Some (JStr f) \<and>
       f = ''system="'' @ system_id @ ''"'' \<and> length f = length system_id + 9) \<and>
    (system_id \<noteq> [] \<longrightarrow>
       (\<exists>R ps f. client_sent (snd (get_containers srv system_id c)) = client_sent c @ [R] \<and>
          req_params R = Some ps \<and> map_of ps ''filter'' = Some (JStr f) \<and>
          f = ''system="'' @ system_id @ ''"'' \<and> length f = length system_id + 9) \<and>
       (\<exists>R ps f. client_sent (snd (get_alerts srv system_id c)) = client_sent c @ [R] \<and>
          req_params R = Some ps \<and> map_of ps ''filter'' = Some (JStr f) \<and>
          f = ''system="'' @ system_id @ ''"'' \<and> length f = length system_id + 9))\<close>
  by (simp add: get_system_stats_def get_container_stats_def get_containers_def get_alerts_def
        Let_def items_list_records_snd)

theorem filters_interpolate_verbatim_witness:
  \<open>\<exists>R ps. client_sent (snd (get_containers (\<lambda>R. Inl ''down'') ''x" || id!="''
               \<lparr>base_url = ''https://hub.example.com'', token = JNull, client_sent = []\<rparr>)) = [R] \<and>
       req_params R = Some ps \<and>
       map_of ps ''filter'' = Some (JStr ''system="x" || id!=""'')\<close>
  using filters_interpolate_verbatim
    [of \<open>\<lambda>R. Inl ''down''\<close> \<open>''x" || id!="''\<close> \<open>''1m''\<close> 30
        \<open>\<lparr>base_url = ''https://hub.example.com'', token = JNull, client_sent = []\<rparr>\<close>]
  by auto

section \<open>Status codes and results\<close>

text \<open>
  Claim C8, as stated, fails: not every operation returns the parsed body on a 2xx response.
  \<open>get_systems\<close> returns the value under \<^verbatim>\<open>items\<close>, not the body.
\<close>

theorem operations_return_body_counterexample:
  "is_success \<lparr>status_code = 200,
      resp_json = Some (JObj [(''items'', JArr [JObj [(''id'', JStr ''s1'')]]), (''totalItems'', JInt 1)])\<rparr> \<and>
   fst (get_systems
         (\<lambda>R. Inr \<lparr>status_code = 200,
            resp_json = Some (JObj [(''items'', JArr [JObj [(''id'', JStr ''s1'')]]), (''totalItems'', JInt 1)])\<rparr>)
         []
         \<lparr>base_url = ''https://hub.example.com'', token = JNull, client_sent = []\<rparr>)
     = Inr (JArr [JObj [(''id'', JStr ''s1'')]]) \<and>
   fst (get_systems
         (\<lambda>R. Inr \<lparr>status_code = 200,
            resp_json = Some (JObj [(''items'', JArr [JObj [(''id'', JStr ''s1'')]]), (''totalItems'', JInt 1)])\<rparr>)
         []
         \<lparr>base_url = ''https://hub.example.com'', token = JNull, client_sent = []\<rparr>)
     \<noteq> Inr (JObj [(''items'', JArr [JObj [(''id'', JStr ''s1'')]]), (''totalItems'', JInt 1)])"
  by (simp add: get_systems_def list_records_def Let_def items_of_fst u_get_fst answered_def
        is_success_def response_json_def)

text \<open>
  Claim C8, amended. Every operation sends one request. When the transport answers it with a
  status outside 2xx, the operation raises \<open>HTTPStatusError\<close> carrying that response, and
  nothing catches or changes it on the way to the caller. On a 2xx response the transport
  helpers \<open>_get\<close>, \<open>_post\<close>, \<open>_patch\<close> and the accessors that return their result directly
  return the parsed body; \<open>_delete\<close> and the delete accessors return None; the listing
  accessors return the body's \<^verbatim>\<open>items\<close> (or the empty sequence), \<open>login\<close> the body's
  \<^verbatim>\<open>token\<close> and \<open>get_current_user\<close> the body's \<^verbatim>\<open>record\<close> (or the empty mapping).
\<close>

theorem status_decides_outcome:
  "\<exists>R. client_sent (snd (call srv op c)) = client_sent c @ [R] \<and>
       (srv R = Inr r \<longrightarrow>
          (\<not> is_success r \<longrightarrow> fst (call srv op c) = Inl (HTTPStatusError r)) \<and>
          (is_success r \<and> returns_none op \<longrightarrow> fst (call srv op c) = Inr JNull) \<and>
          (is_success r \<and> returns_body op \<and> resp_json r = Some j \<longrightarrow>
             fst (call srv op c) = Inr j) \<and>
          (is_success r \<and> lists_items op \<and> resp_json r = Some j \<longrightarrow>
             fst (call srv op c) = dict_get j ''items'' (JArr [])) \<and>
          (is_success r \<and> is_login op \<and> resp_json r = Some j \<longrightarrow>
             fst (call srv op c) = subscript j ''token'') \<and>
          (is_success r \<and> op = Get_current_user \<and> resp_json r = Some j \<longrightarrow>
             fst (call srv op c) = dict_get j ''record'' (JObj []))) \<and>
       (returns_none op \<or> returns_body op \<or> lists_items op \<or> is_login op \<or> op = Get_current_user)"
proof -
  obtain R where R: "client_sent (snd (call srv op c)) = client_sent c @ [R]"
      "fst (call srv op c) = answered srv R (on_success op)"
    using call_shape by blast
  have kinds: "returns_none op \<or> returns_body op \<or> lists_items op \<or> is_login op \<or> op = Get_current_user"
    by (cases op) simp_all
  show ?thesis
    using R kinds
    by (intro exI[of _ R]) (auto simp: answered_def response_json_def on_success_simps)
qed

theorem status_decides_outcome_witness:
  "fst (call (\<lambda>R. Inr \<lparr>status_code = 404, resp_json = Some (JObj [(''message'', JStr ''gone'')])\<rparr>)
         (Get_systems [])
         \<lparr>base_url = ''https://hub.example.com'', token = JNull, client_sent = []\<rparr>)
     = Inl (HTTPStatusError \<lparr>status_code = 404, resp_json = Some (JObj [(''message'', JStr ''gone'')])\<rparr>)"
  using status_decides_outcome
    [of "\<lambda>R. Inr \<lparr>status_code = 404, resp_json = Some (JObj [(''message'', JStr ''gone'')])\<rparr>"
        "Get_systems []"
        "\<lparr>base_url = ''https://hub.example.com'', token = JNull, client_sent = []\<rparr>"
        "\<lparr>status_code = 404, resp_json = Some (JObj [(''message'', JStr ''gone'')])\<rparr>"]
  by (auto simp: is_success_def)

end
